theory Spec2Isabelle
  imports Complex_Main
begin

section \<open>Values, exceptions and user-interface calls\<close>

text \<open>
  The program of \<^verbatim>\<open>main.py\<close> moves three kinds of data around: text typed by the
  user, values decoded from JSON (API responses and the journal file), and rows of the
  \<^verbatim>\<open>users\<close> table.

  Text (Python \<^verbatim>\<open>str\<close>) is a \<^typ>\<open>string\<close>. A decoded JSON value is a \<open>json\<close>: Python's
  \<^verbatim>\<open>None\<close>, \<^verbatim>\<open>bool\<close>, numbers, \<^verbatim>\<open>str\<close>, \<^verbatim>\<open>list\<close> and \<^verbatim>\<open>dict\<close>. The same type
  carries the values the functions return (\<^verbatim>\<open>None\<close> is \<open>JNull\<close>). A decoded \<^verbatim>\<open>dict\<close> is
  an association list read with \<^const>\<open>map_of\<close>. Numbers are real numbers: Python's
  \<^verbatim>\<open>int\<close> and \<^verbatim>\<open>float\<close> are not told apart, and the arithmetic of \<^verbatim>\<open>float\<close> is taken
  to be exact (rounding, infinities and NaN are outside this model).
\<close>

datatype json =
    JNull
  | JBool bool
  | JNum real
  | JStr string
  | JArr "json list"
  | JObj "(string \<times> json) list"

text \<open>
  Every exception that a modelled statement can raise is a value. The exceptions of
  the HTTP library and of the database driver carry the library's message.
\<close>

datatype py_error =
    KeyError
  | IndexError
  | TypeError
  | AttributeError
  | ValueError
  | ZeroDivisionError
  | FileNotFoundError
  | JSONDecodeError
  | RequestException string
  | OperationalError string
  | IntegrityError
  | DataError

text \<open>
  The calls to the UI framework that report something: \<^verbatim>\<open>st.error\<close>, \<^verbatim>\<open>st.write\<close>
  and \<^verbatim>\<open>st.success\<close>. The argument is an f-string, kept as its fragments: literal
  text, an interpolated value \<^verbatim>\<open>{x}\<close>, a number formatted with \<^verbatim>\<open>{x:.2f}\<close>, an
  interpolated exception \<^verbatim>\<open>{e}\<close>.
\<close>

datatype frag = Lit string | Val json | Fix2 real | Exc py_error

datatype st_call =
    St_error "frag list"
  | St_write "frag list"
  | St_success "frag list"

text \<open>
  A call that may raise returns the UI calls it made and then either the exception that
  escaped or its result.
\<close>

type_synonym 'a outcome = "st_call list \<times> (py_error + 'a)"

definition bind_err :: "py_error + 'a \<Rightarrow> ('a \<Rightarrow> py_error + 'b) \<Rightarrow> py_error + 'b" where
  "bind_err m f = (case m of Inl e \<Rightarrow> Inl e | Inr x \<Rightarrow> f x)"

subsection \<open>Python operations on decoded values\<close>

text \<open>Truth value of a value in a condition (\<^verbatim>\<open>if x:\<close>).\<close>

fun truthy :: "json \<Rightarrow> bool" where
  "truthy JNull = False"
| "truthy (JBool b) = b"
| "truthy (JNum x) = (x \<noteq> 0)"
| "truthy (JStr s) = (s \<noteq> [])"
| "truthy (JArr xs) = (xs \<noteq> [])"
| "truthy (JObj kvs) = (kvs \<noteq> [])"

text \<open>\<^verbatim>\<open>x[key]\<close> with a string key.\<close>

fun getitem :: "json \<Rightarrow> string \<Rightarrow> py_error + json" where
  "getitem (JObj kvs) k = (case map_of kvs k of None \<Rightarrow> Inl KeyError | Some v \<Rightarrow> Inr v)"
| "getitem _ k = Inl TypeError"

text \<open>
  \<^verbatim>\<open>x[0]\<close>. The keys of a decoded \<^verbatim>\<open>dict\<close> are strings, so the key \<^verbatim>\<open>0\<close> is never
  there.
\<close>

fun getitem0 :: "json \<Rightarrow> py_error + json" where
  "getitem0 (JArr []) = Inl IndexError"
| "getitem0 (JArr (x # xs)) = Inr x"
| "getitem0 (JStr []) = Inl IndexError"
| "getitem0 (JStr (c # cs)) = Inr (JStr [c])"
| "getitem0 (JObj kvs) = Inl KeyError"
| "getitem0 _ = Inl TypeError"

text \<open>\<^verbatim>\<open>x.get(key)\<close> and \<^verbatim>\<open>x.get(key, default)\<close>: only a \<^verbatim>\<open>dict\<close> has the method.\<close>

fun get_method :: "json \<Rightarrow> string \<Rightarrow> json \<Rightarrow> py_error + json" where
  "get_method (JObj kvs) k d = (case map_of kvs k of None \<Rightarrow> Inr d | Some v \<Rightarrow> Inr v)"
| "get_method _ k d = Inl AttributeError"

text \<open>\<^verbatim>\<open>isinstance(x, dict)\<close>.\<close>

fun is_dict :: "json \<Rightarrow> bool" where
  "is_dict (JObj kvs) = True"
| "is_dict _ = False"

text \<open>\<^verbatim>\<open>key in s\<close> for two strings: \<open>key\<close> occurs in \<open>s\<close> as a contiguous run.\<close>

fun occurs_in :: "string \<Rightarrow> string \<Rightarrow> bool" where
  "occurs_in k [] = (k = [])"
| "occurs_in k (c # cs) = (take (length k) (c # cs) = k \<or> occurs_in k cs)"

text \<open>
  \<^verbatim>\<open>key in x\<close> with a string key: a key of a \<^verbatim>\<open>dict\<close>, an element of a \<^verbatim>\<open>list\<close>, a
  substring of a \<^verbatim>\<open>str\<close>; the other values are not containers.
\<close>

fun contains :: "string \<Rightarrow> json \<Rightarrow> py_error + bool" where
  "contains k (JObj kvs) = Inr (map_of kvs k \<noteq> None)"
| "contains k (JArr xs) = Inr (JStr k \<in> set xs)"
| "contains k (JStr s) = Inr (occurs_in k s)"
| "contains k _ = Inl TypeError"

text \<open>
  \<^verbatim>\<open>x / c\<close> for a non-zero numeric constant \<open>c\<close>. A \<^verbatim>\<open>bool\<close> is a number in Python
  (\<^verbatim>\<open>True\<close> is 1).
\<close>

fun truediv_const :: "json \<Rightarrow> real \<Rightarrow> py_error + real" where
  "truediv_const (JNum x) c = Inr (x / c)"
| "truediv_const (JBool b) c = Inr (of_bool b / c)"
| "truediv_const _ c = Inl TypeError"

text \<open>The value shown by \<^verbatim>\<open>{x:.2f}\<close>: numbers only.\<close>

fun format_2f :: "json \<Rightarrow> py_error + frag" where
  "format_2f (JNum x) = Inr (Fix2 x)"
| "format_2f (JBool b) = Inr (Fix2 (of_bool b))"
| "format_2f (JStr s) = Inl ValueError"
| "format_2f _ = Inl TypeError"

section \<open>External data clients\<close>

text \<open>
  \<^verbatim>\<open>requests.get(url).json()\<close> is an input of each client: either the exception the
  HTTP library raised, or the decoded body.
\<close>

type_synonym http_result = "py_error + json"

subsection \<open>\<^verbatim>\<open>get_route_details\<close>\<close>

text \<open>The \<^verbatim>\<open>if\<close>/\<^verbatim>\<open>elif\<close>/\<^verbatim>\<open>else\<close> that chooses \<^verbatim>\<open>emission_factor\<close>.\<close>

definition emission_factor :: "string \<Rightarrow> real" where
  "emission_factor vehicle_type =
     (if vehicle_type = ''Gasoline'' then 2.31
      else if vehicle_type = ''Diesel'' then 2.68
      else 0)"

text \<open>
  The branch taken when \<^verbatim>\<open>"routes" in route_response\<close>. The division by
  \<^verbatim>\<open>fuel_efficiency\<close> raises when it is zero.
\<close>

definition route_found :: "json \<Rightarrow> string \<Rightarrow> real \<Rightarrow> py_error + (json \<times> json \<times> json \<times> json)" where
  "route_found route_response vehicle_type fuel_efficiency =
     bind_err (getitem route_response ''routes'') (\<lambda>routes.
     bind_err (getitem0 routes) (\<lambda>route.
     bind_err (getitem route ''summary'') (\<lambda>summary1.
     bind_err (getitem summary1 ''travelTimeInSeconds'') (\<lambda>seconds.
     bind_err (truediv_const seconds 60) (\<lambda>travel_time.
     bind_err (getitem route ''summary'') (\<lambda>summary2.
     bind_err (getitem summary2 ''lengthInMeters'') (\<lambda>meters.
     bind_err (truediv_const meters 1000) (\<lambda>route_distance.
     bind_err (getitem route ''legs'') (\<lambda>legs.
     bind_err (getitem0 legs) (\<lambda>leg.
     bind_err (getitem leg ''points'') (\<lambda>geometry.
       if fuel_efficiency = 0 then Inl ZeroDivisionError
       else Inr (JNum travel_time, JNum route_distance,
                 JNum ((route_distance / fuel_efficiency) * emission_factor vehicle_type),
                 geometry))))))))))))"

definition get_route_details ::
    "http_result \<Rightarrow> string \<Rightarrow> real \<Rightarrow> (json \<times> json \<times> json \<times> json) outcome" where
  "get_route_details http vehicle_type fuel_efficiency =
     (case http of
        Inl e \<Rightarrow> ([], Inl e)
      | Inr route_response \<Rightarrow>
          (case contains ''routes'' route_response of
             Inl e \<Rightarrow> ([], Inl e)
           | Inr True \<Rightarrow> ([], route_found route_response vehicle_type fuel_efficiency)
           | Inr False \<Rightarrow>
               ([St_error [Lit ''Unable to calculate route. Check your locations!'']],
                Inr (JNull, JNull, JNull, JNull))))"

subsection \<open>\<^verbatim>\<open>geocode_location\<close>\<close>

definition geocode_location :: "string \<Rightarrow> http_result \<Rightarrow> (json \<times> json) outcome" where
  "geocode_location location http =
     (case http of
        Inl e \<Rightarrow> ([], Inl e)
      | Inr response \<Rightarrow>
          (case get_method response ''results'' JNull of
             Inl e \<Rightarrow> ([], Inl e)
           | Inr results \<Rightarrow>
               if truthy results then
                 ([], bind_err (getitem response ''results'') (\<lambda>rs.
                      bind_err (getitem0 rs) (\<lambda>r.
                      bind_err (getitem r ''position'') (\<lambda>position.
                      bind_err (getitem position ''lat'') (\<lambda>lat.
                      bind_err (getitem position ''lon'') (\<lambda>lon.
                        Inr (lat, lon)))))))
               else
                 ([St_error [Lit ''Unable to geocode location: '', Val (JStr location)]],
                  Inr (JNull, JNull))))"

subsection \<open>\<^verbatim>\<open>get_weather_details\<close>\<close>

text \<open>
  The body of the \<^verbatim>\<open>try\<close> once the response is there. An exception raised here is not
  a \<^verbatim>\<open>RequestException\<close> and escapes the function.
\<close>

definition weather_from_response :: "json \<Rightarrow> (json \<times> json) outcome" where
  "weather_from_response response =
     (case get_method response ''status'' JNull of
        Inl e \<Rightarrow> ([], Inl e)
      | Inr status \<Rightarrow>
          (case get_method response ''data'' JNull of
             Inl e \<Rightarrow> ([], Inl e)
           | Inr data \<Rightarrow>
               if status \<noteq> JStr ''error'' \<and> is_dict data then
                 ([], bind_err (get_method data ''aqi'' (JStr ''N/A'')) (\<lambda>air_quality_index.
                      bind_err (get_method data ''city'' (JObj [])) (\<lambda>city.
                      bind_err (get_method city ''name'' (JStr ''Unknown'')) (\<lambda>weather_city.
                        Inr (air_quality_index, weather_city)))))
               else
                 (case get_method response ''data'' (JStr ''Unknown error'') of
                    Inl e \<Rightarrow> ([], Inl e)
                  | Inr error_message \<Rightarrow>
                      ([St_error [Lit ''Error fetching weather data: '', Val error_message]],
                       Inr (JStr ''N/A'', JStr ''City not found'')))))"

definition get_weather_details :: "string \<Rightarrow> http_result \<Rightarrow> (json \<times> json) outcome" where
  "get_weather_details city http =
     (if city \<noteq> [] then
        (case http of
           Inl (RequestException msg) \<Rightarrow>
             ([St_error [Lit ''Error fetching data: '', Exc (RequestException msg)]],
              Inr (JStr ''N/A'', JStr ''Error fetching data''))
         | Inl e \<Rightarrow> ([], Inl e)
         | Inr response \<Rightarrow> weather_from_response response)
      else
        ([St_error [Lit ''City not provided. Please enter a valid city.'']],
         Inr (JStr ''N/A'', JStr ''City not provided'')))"

section \<open>Credential store\<close>

text \<open>
  A row of the table \<^verbatim>\<open>users\<close> made by \<^verbatim>\<open>create_user_table\<close>. The column \<^verbatim>\<open>id\<close> is
  assigned by the server and never read by the program, so a row is its seven text
  columns. Every argument of \<^verbatim>\<open>signup_user\<close> is text from a form field, so no column
  is ever \<^verbatim>\<open>NULL\<close>. The table is the list of its rows, oldest first.
\<close>

record user_row =
  first_name :: string
  last_name :: string
  username :: string
  password :: string
  mobile_number :: string
  vehicle_number :: string
  vehicle_type :: string

type_synonym users_table = "user_row list"

text \<open>
  The lengths the schema declares (\<^verbatim>\<open>VARCHAR(n)\<close>). The server is taken to run in its
  default strict mode, where a longer value is an error rather than cut short.
\<close>

definition fits_columns :: "user_row \<Rightarrow> bool" where
  "fits_columns r =
     (length (first_name r) \<le> 50 \<and> length (last_name r) \<le> 50 \<and>
      length (username r) \<le> 50 \<and> length (password r) \<le> 255 \<and>
      length (mobile_number r) \<le> 15 \<and> length (vehicle_number r) \<le> 20 \<and>
      length (vehicle_type r) \<le> 50)"

text \<open>
  The server compares text as the collation of the column says. The schema names no
  collation, so the default of the MySQL server applies, and that default ignores the
  case of letters. A collation is given by its weight string (the server's
  \<^verbatim>\<open>WEIGHT_STRING\<close>): two texts are equal in a comparison exactly when their weight
  strings are the same. The weight string is a parameter of the model; with a binary
  collation it is the text itself.
\<close>

type_synonym collation = "string \<Rightarrow> string"

text \<open>
  A collation that ignores the case of the letters A to Z and nothing else. The
  server's default collations compare at least as coarsely.
\<close>

definition fold_letter :: "char \<Rightarrow> char" where
  "fold_letter c =
     (case map_of (zip ''ABCDEFGHIJKLMNOPQRSTUVWXYZ'' ''abcdefghijklmnopqrstuvwxyz'') c of
        None \<Rightarrow> c
      | Some l \<Rightarrow> l)"

definition ascii_casefold :: collation where
  "ascii_casefold s = map fold_letter s"

text \<open>
  The \<^verbatim>\<open>INSERT\<close> statement followed by \<^verbatim>\<open>commit\<close>: the schema's \<^verbatim>\<open>UNIQUE\<close> on
  \<^verbatim>\<open>username\<close> rejects a row whose username compares equal to one that is already
  there.
\<close>

definition insert_user :: "collation \<Rightarrow> users_table \<Rightarrow> user_row \<Rightarrow> py_error + users_table" where
  "insert_user weight_string tbl r =
     (if \<not> fits_columns r then Inl DataError
      else if weight_string (username r) \<in> set (map (\<lambda>old. weight_string (username old)) tbl)
        then Inl IntegrityError
      else Inr (tbl @ [r]))"

text \<open>
  The \<^verbatim>\<open>SELECT\<close> of \<^verbatim>\<open>login_user\<close>, whose \<^verbatim>\<open>WHERE\<close> compares both columns as the
  collation says, and \<^verbatim>\<open>fetchone()\<close> on its result.
\<close>

definition select_user ::
    "collation \<Rightarrow> users_table \<Rightarrow> string \<Rightarrow> string \<Rightarrow> user_row list" where
  "select_user weight_string tbl u digest =
     filter (\<lambda>r. weight_string (username r) = weight_string u
                \<and> weight_string (password r) = weight_string digest) tbl"

definition fetchone :: "'a list \<Rightarrow> 'a option" where
  "fetchone rows = (case rows of [] \<Rightarrow> None | r # rest \<Rightarrow> Some r)"

text \<open>
  \<^verbatim>\<open>hash_password\<close>. The digest function of the hash library,
  \<^verbatim>\<open>hashlib.sha256(b).hexdigest()\<close>, is a parameter. Text is identified with its
  encoding, so \<^verbatim>\<open>password.encode()\<close> is the password itself.
\<close>

definition hash_password :: "(string \<Rightarrow> string) \<Rightarrow> string \<Rightarrow> string" where
  "hash_password sha256_hexdigest password' = sha256_hexdigest password'"

text \<open>
  Both operations open a connection and run one statement inside \<^verbatim>\<open>try\<close>. Whether the
  server answers is an input of each call: \<open>fault\<close> is \<open>Some msg\<close> when the driver raises
  an operational error (server unreachable, connection lost) and the statement has no
  effect. \<^verbatim>\<open>except Exception\<close> catches every exception, so neither function raises.
\<close>

definition signup_user ::
    "collation \<Rightarrow> (string \<Rightarrow> string) \<Rightarrow> string option \<Rightarrow> users_table \<Rightarrow>
     string \<Rightarrow> string \<Rightarrow> string \<Rightarrow> string \<Rightarrow> string \<Rightarrow> string \<Rightarrow> string \<Rightarrow>
     st_call list \<times> bool \<times> users_table" where
  "signup_user weight_string sha256_hexdigest fault tbl
       first_name' last_name' username' password' mobile_number' vehicle_number' vehicle_type' =
     (case (case fault of
              Some msg \<Rightarrow> Inl (OperationalError msg)
            | None \<Rightarrow>
                insert_user weight_string tbl
                  \<lparr>first_name = first_name', last_name = last_name', username = username',
                   password = hash_password sha256_hexdigest password',
                   mobile_number = mobile_number', vehicle_number = vehicle_number',
                   vehicle_type = vehicle_type'\<rparr>) of
        Inr tbl' \<Rightarrow> ([], True, tbl')
      | Inl e \<Rightarrow> ([St_error [Lit ''Signup failed: '', Exc e]], False, tbl))"

definition login_user ::
    "collation \<Rightarrow> (string \<Rightarrow> string) \<Rightarrow> string option \<Rightarrow> users_table \<Rightarrow>
     string \<Rightarrow> string \<Rightarrow> st_call list \<times> bool" where
  "login_user weight_string sha256_hexdigest fault tbl username' password' =
     (case fault of
        Some msg \<Rightarrow> ([St_error [Lit ''Login failed: '', Exc (OperationalError msg)]], False)
      | None \<Rightarrow>
          ([], fetchone (select_user weight_string tbl username'
                           (hash_password sha256_hexdigest password')) \<noteq> None))"

section \<open>Route journal\<close>

text \<open>
  The file \<^verbatim>\<open>saved_routes.json\<close> is absent, or holds text that \<^verbatim>\<open>json.load\<close> decodes
  to a value, or holds text that \<^verbatim>\<open>json.load\<close> rejects. \<^verbatim>\<open>json.dump\<close> of a value
  leaves text that decodes to that value again (the library's round trip).
\<close>

datatype journal_file = Absent | Decodes json | Undecodable

text \<open>\<^verbatim>\<open>with open("saved_routes.json", "r") as f: json.load(f)\<close>.\<close>

fun open_and_load :: "journal_file \<Rightarrow> py_error + json" where
  "open_and_load Absent = Inl FileNotFoundError"
| "open_and_load Undecodable = Inl JSONDecodeError"
| "open_and_load (Decodes v) = Inr v"

text \<open>The values the save button gathers into \<^verbatim>\<open>saved_data\<close>.\<close>

record route_summary =
  weather_city :: string
  start_location :: string
  end_location :: string
  travel_time :: real
  route_distance :: real
  emissions :: real
  route_map :: string

definition saved_data :: "route_summary \<Rightarrow> json" where
  "saved_data s = JObj
     [(''weather_city'', JStr (weather_city s)),
      (''start_location'', JStr (start_location s)),
      (''end_location'', JStr (end_location s)),
      (''travel_time'', JNum (travel_time s)),
      (''route_distance'', JNum (route_distance s)),
      (''emissions'', JNum (emissions s)),
      (''route_map'', JStr (route_map s))]"

text \<open>\<^verbatim>\<open>xs.append(x)\<close>: only a \<^verbatim>\<open>list\<close> has the method.\<close>

fun append_method :: "json \<Rightarrow> json \<Rightarrow> py_error + json" where
  "append_method (JArr xs) x = Inr (JArr (xs @ [x]))"
| "append_method _ x = Inl AttributeError"

text \<open>
  The body of \<^verbatim>\<open>if st.button("Save Route")\<close> in \<^verbatim>\<open>traffic_and_weather_app\<close>: the
  journal file after it, the UI calls, and the exception that escaped, if any.
\<close>

definition save_route :: "journal_file \<Rightarrow> route_summary \<Rightarrow> journal_file \<times> unit outcome" where
  "save_route file s =
     (case (case open_and_load file of
              Inl FileNotFoundError \<Rightarrow> Inr (JArr [])
            | Inl e \<Rightarrow> Inl e
            | Inr loaded \<Rightarrow> Inr loaded) of
        Inl e \<Rightarrow> (file, [], Inl e)
      | Inr saved_routes \<Rightarrow>
          (case append_method saved_routes (saved_data s) of
             Inl e \<Rightarrow> (file, [], Inl e)
           | Inr saved_routes' \<Rightarrow>
               (Decodes saved_routes',
                [St_success [Lit ''Route details saved successfully!'']], Inr ())))"

text \<open>Pressing the save button once for each summary, in order, while nothing raises.\<close>

fun save_all :: "journal_file \<Rightarrow> route_summary list \<Rightarrow> py_error + journal_file" where
  "save_all file [] = Inr file"
| "save_all file (s # ss) =
     (case save_route file s of
        (file', calls, Inl e) \<Rightarrow> Inl e
      | (file', calls, Inr u) \<Rightarrow> save_all file' ss)"

text \<open>
  The \<^verbatim>\<open>st.write\<close> calls of one round of the listing loop, each either raising while
  its f-string is evaluated or made.
\<close>

definition route_writes :: "nat \<Rightarrow> json \<Rightarrow> (py_error + st_call) list" where
  "route_writes idx route =
     [Inr (St_write [Lit ''Route '', Val (JNum (real (idx + 1))), Lit '':'']),
      bind_err (getitem route ''weather_city'') (\<lambda>v.
        Inr (St_write [Lit ''Weather City: '', Val v])),
      bind_err (getitem route ''start_location'') (\<lambda>v.
        Inr (St_write [Lit ''Start Location: '', Val v])),
      bind_err (getitem route ''end_location'') (\<lambda>v.
        Inr (St_write [Lit ''End Location: '', Val v])),
      bind_err (getitem route ''travel_time'') (\<lambda>v. bind_err (format_2f v) (\<lambda>x.
        Inr (St_write [Lit ''Travel Time: '', x, Lit '' minutes'']))),
      bind_err (getitem route ''route_distance'') (\<lambda>v. bind_err (format_2f v) (\<lambda>x.
        Inr (St_write [Lit ''Route Distance: '', x, Lit '' km'']))),
      bind_err (getitem route ''emissions'') (\<lambda>v. bind_err (format_2f v) (\<lambda>x.
        Inr (St_write [Lit ''Emissions: '', x, Lit '' kg CO2'']))),
      Inr (St_write [Lit ''---''])]"

text \<open>Statements run in order; the first exception ends the run.\<close>

fun run_writes :: "(py_error + st_call) list \<Rightarrow> unit outcome" where
  "run_writes [] = ([], Inr ())"
| "run_writes (Inl e # ws) = ([], Inl e)"
| "run_writes (Inr c # ws) = (case run_writes ws of (cs, res) \<Rightarrow> (c # cs, res))"

text \<open>What \<^verbatim>\<open>for ... in enumerate(x)\<close> goes through.\<close>

fun iterate :: "json \<Rightarrow> py_error + json list" where
  "iterate (JArr xs) = Inr xs"
| "iterate (JObj kvs) = Inr (map (\<lambda>kv. JStr (fst kv)) kvs)"
| "iterate (JStr s) = Inr (map (\<lambda>c. JStr [c]) s)"
| "iterate _ = Inl TypeError"

fun show_routes :: "nat \<Rightarrow> json list \<Rightarrow> unit outcome" where
  "show_routes idx [] = ([], Inr ())"
| "show_routes idx (route # rest) =
     (case run_writes (route_writes idx route) of
        (cs, Inl e) \<Rightarrow> (cs, Inl e)
      | (cs, Inr u) \<Rightarrow> (case show_routes (Suc idx) rest of (cs', res) \<Rightarrow> (cs @ cs', res)))"

text \<open>
  The branch \<^verbatim>\<open>sidebar_option == "Saved Routes"\<close> of \<^verbatim>\<open>traffic_and_weather_app\<close>.
\<close>

definition saved_routes_page :: "journal_file \<Rightarrow> unit outcome" where
  "saved_routes_page file =
     (case open_and_load file of
        Inl FileNotFoundError \<Rightarrow>
          ([St_write [Lit ''Saved Routes:''], St_write [Lit ''No saved routes found.'']], Inr ())
      | Inl e \<Rightarrow> ([St_write [Lit ''Saved Routes:'']], Inl e)
      | Inr saved_routes \<Rightarrow>
          (case iterate saved_routes of
             Inl e \<Rightarrow> ([St_write [Lit ''Saved Routes:'']], Inl e)
           | Inr routes \<Rightarrow>
               (case show_routes 0 routes of
                  (cs, res) \<Rightarrow> (St_write [Lit ''Saved Routes:''] # cs, res))))"

text \<open>
  What the listing is to show for a saved summary at position \<open>idx\<close> (counted from 0):
  its number, then six of its seven fields, then a rule.
\<close>

definition shown_summary :: "nat \<Rightarrow> route_summary \<Rightarrow> st_call list" where
  "shown_summary idx s =
     [St_write [Lit ''Route '', Val (JNum (real (idx + 1))), Lit '':''],
      St_write [Lit ''Weather City: '', Val (JStr (weather_city s))],
      St_write [Lit ''Start Location: '', Val (JStr (start_location s))],
      St_write [Lit ''End Location: '', Val (JStr (end_location s))],
      St_write [Lit ''Travel Time: '', Fix2 (travel_time s), Lit '' minutes''],
      St_write [Lit ''Route Distance: '', Fix2 (route_distance s), Lit '' km''],
      St_write [Lit ''Emissions: '', Fix2 (emissions s), Lit '' kg CO2''],
      St_write [Lit ''---'']]"

section \<open>Properties of the routing and geocoding client\<close>

lemma bind_err_Inr [simp]: "bind_err (Inr x) f = f x"
  by (simp add: bind_err_def)

lemma bind_err_Inl [simp]: "bind_err (Inl e) f = Inl e"
  by (simp add: bind_err_def)

lemma getitem_Inr_contains: "getitem x k = Inr v \<Longrightarrow> contains k x = Inr True"
  by (cases x) (auto split: option.splits)

text \<open>
  A response in the routing API's format: \<^verbatim>\<open>routes[0].summary\<close> holds the two numbers
  and \<^verbatim>\<open>routes[0].legs[0].points\<close> the geometry. On it the function returns the four
  values, unless the fuel efficiency is zero.
\<close>

lemma route_found_value:
  assumes "getitem route_response ''routes'' = Inr routes"
    and "getitem0 routes = Inr route"
    and "getitem route ''summary'' = Inr summ"
    and "getitem summ ''travelTimeInSeconds'' = Inr (JNum t)"
    and "getitem summ ''lengthInMeters'' = Inr (JNum m)"
    and "getitem route ''legs'' = Inr legs"
    and "getitem0 legs = Inr leg"
    and "getitem leg ''points'' = Inr geometry"
    and "e \<noteq> 0"
  shows "get_route_details (Inr route_response) v e =
           ([], Inr (JNum (t / 60), JNum (m / 1000),
                     JNum ((m / 1000 / e) * emission_factor v), geometry))"
  using assms getitem_Inr_contains [OF assms(1)]
  by (simp add: get_route_details_def route_found_def)

text \<open>
  Claim C1. For a route response whose first route has length \<open>m\<close> metres, that is a
  distance of \<open>d = m / 1000\<close> kilometres, and a fuel efficiency \<open>e > 0\<close>,
  \<^verbatim>\<open>get_route_details\<close> returns the emissions estimate \<open>(d / e) * 2.31\<close> for the vehicle
  type "Gasoline", \<open>(d / e) * 2.68\<close> for "Diesel" and \<open>(d / e) * 0\<close> for "Electric". The
  estimate is 0 for an electric vehicle whatever \<open>d\<close> and \<open>e\<close> are, and 0 for every
  vehicle type when \<open>d = 0\<close>.
\<close>

theorem get_route_details_emissions:
  assumes "getitem route_response ''routes'' = Inr routes"
    and "getitem0 routes = Inr route"
    and "getitem route ''summary'' = Inr summ"
    and "getitem summ ''travelTimeInSeconds'' = Inr (JNum t)"
    and "getitem summ ''lengthInMeters'' = Inr (JNum m)"
    and "getitem route ''legs'' = Inr legs"
    and "getitem0 legs = Inr leg"
    and "getitem leg ''points'' = Inr geometry"
    and "d = m / 1000"
    and "e > 0"
  shows "get_route_details (Inr route_response) ''Gasoline'' e =
           ([], Inr (JNum (t / 60), JNum d, JNum ((d / e) * 2.31), geometry))
       \<and> get_route_details (Inr route_response) ''Diesel'' e =
           ([], Inr (JNum (t / 60), JNum d, JNum ((d / e) * 2.68), geometry))
       \<and> get_route_details (Inr route_response) ''Electric'' e =
           ([], Inr (JNum (t / 60), JNum d, JNum ((d / e) * 0), geometry))
       \<and> get_route_details (Inr route_response) ''Electric'' e =
           ([], Inr (JNum (t / 60), JNum d, JNum 0, geometry))
       \<and> (d = 0 \<longrightarrow> (\<forall>v. get_route_details (Inr route_response) v e =
           ([], Inr (JNum (t / 60), JNum 0, JNum 0, geometry))))"
proof -
  have ne: "e \<noteq> 0" using assms(10) by simp
  have val: "get_route_details (Inr route_response) v e =
      ([], Inr (JNum (t / 60), JNum d, JNum ((d / e) * emission_factor v), geometry))" for v
    unfolding assms(9) by (rule route_found_value [OF assms(1-8) ne])
  show ?thesis
    by (simp add: val emission_factor_def)
qed

text \<open>
  A 12 km route at 15 km/l: 0.8 litres, 1.848 kg for gasoline, nothing for an electric
  vehicle; and a route of length 0 gives 0 for diesel.
\<close>

theorem get_route_details_emissions_witness:
  "get_route_details
     (Inr (JObj [(''routes'', JArr [JObj
        [(''summary'', JObj [(''lengthInMeters'', JNum 12000),
                             (''travelTimeInSeconds'', JNum 900)]),
         (''legs'', JArr [JObj [(''points'', JArr [])]])]])]))
     ''Gasoline'' 15
   = ([], Inr (JNum 15, JNum 12, JNum ((12 / 15) * 2.31), JArr []))
   \<and> get_route_details
     (Inr (JObj [(''routes'', JArr [JObj
        [(''summary'', JObj [(''lengthInMeters'', JNum 12000),
                             (''travelTimeInSeconds'', JNum 900)]),
         (''legs'', JArr [JObj [(''points'', JArr [])]])]])]))
     ''Electric'' 15
   = ([], Inr (JNum 15, JNum 12, JNum 0, JArr []))
   \<and> get_route_details
     (Inr (JObj [(''routes'', JArr [JObj
        [(''summary'', JObj [(''lengthInMeters'', JNum 0),
                             (''travelTimeInSeconds'', JNum 0)]),
         (''legs'', JArr [JObj [(''points'', JArr [])]])]])]))
     ''Diesel'' 15
   = ([], Inr (JNum 0, JNum 0, JNum 0, JArr []))"
  using get_route_details_emissions
    [of "JObj [(''routes'', JArr [JObj
        [(''summary'', JObj [(''lengthInMeters'', JNum 12000),
                             (''travelTimeInSeconds'', JNum 900)]),
         (''legs'', JArr [JObj [(''points'', JArr [])]])]])]"
        "JArr [JObj
        [(''summary'', JObj [(''lengthInMeters'', JNum 12000),
                             (''travelTimeInSeconds'', JNum 900)]),
         (''legs'', JArr [JObj [(''points'', JArr [])]])]]"
        "JObj
        [(''summary'', JObj [(''lengthInMeters'', JNum 12000),
                             (''travelTimeInSeconds'', JNum 900)]),
         (''legs'', JArr [JObj [(''points'', JArr [])]])]"
        "JObj [(''lengthInMeters'', JNum 12000), (''travelTimeInSeconds'', JNum 900)]"
        900 12000
        "JArr [JObj [(''points'', JArr [])]]"
        "JObj [(''points'', JArr [])]"
        "JArr []" 12 15]
    get_route_details_emissions
    [of "JObj [(''routes'', JArr [JObj
        [(''summary'', JObj [(''lengthInMeters'', JNum 0),
                             (''travelTimeInSeconds'', JNum 0)]),
         (''legs'', JArr [JObj [(''points'', JArr [])]])]])]"
        "JArr [JObj
        [(''summary'', JObj [(''lengthInMeters'', JNum 0),
                             (''travelTimeInSeconds'', JNum 0)]),
         (''legs'', JArr [JObj [(''points'', JArr [])]])]]"
        "JObj
        [(''summary'', JObj [(''lengthInMeters'', JNum 0),
                             (''travelTimeInSeconds'', JNum 0)]),
         (''legs'', JArr [JObj [(''points'', JArr [])]])]"
        "JObj [(''lengthInMeters'', JNum 0), (''travelTimeInSeconds'', JNum 0)]"
        0 0
        "JArr [JObj [(''points'', JArr [])]]"
        "JObj [(''points'', JArr [])]"
        "JArr []" 0 15]
  by simp

text \<open>
  Claim C9. The emission factor is 0 for every vehicle type string other than exactly
  "Gasoline" and "Diesel", not only for "Electric": on a route response in the API's
  format and a non-zero fuel efficiency, an unrecognised or misspelled vehicle type
  gives an emissions estimate of 0, and nothing is reported.
\<close>

theorem unrecognised_vehicle_type_zero:
  assumes "getitem route_response ''routes'' = Inr routes"
    and "getitem0 routes = Inr route"
    and "getitem route ''summary'' = Inr summ"
    and "getitem summ ''travelTimeInSeconds'' = Inr (JNum t)"
    and "getitem summ ''lengthInMeters'' = Inr (JNum m)"
    and "getitem route ''legs'' = Inr legs"
    and "getitem0 legs = Inr leg"
    and "getitem leg ''points'' = Inr geometry"
    and "e \<noteq> 0"
    and "v \<noteq> ''Gasoline''" and "v \<noteq> ''Diesel''"
  shows "emission_factor v = 0
       \<and> get_route_details (Inr route_response) v e =
           ([], Inr (JNum (t / 60), JNum (m / 1000), JNum 0, geometry))"
  using assms(10,11) by (simp add: route_found_value [OF assms(1-9)] emission_factor_def)

text \<open>The lower-case spelling "gasoline" is not recognised.\<close>

theorem unrecognised_vehicle_type_zero_witness:
  "emission_factor ''gasoline'' = 0 \<and>
   get_route_details
     (Inr (JObj [(''routes'', JArr [JObj
        [(''summary'', JObj [(''lengthInMeters'', JNum 12000),
                             (''travelTimeInSeconds'', JNum 900)]),
         (''legs'', JArr [JObj [(''points'', JArr [])]])]])]))
     ''gasoline'' 15
   = ([], Inr (JNum 15, JNum 12, JNum 0, JArr []))"
  using unrecognised_vehicle_type_zero
    [of "JObj [(''routes'', JArr [JObj
        [(''summary'', JObj [(''lengthInMeters'', JNum 12000),
                             (''travelTimeInSeconds'', JNum 900)]),
         (''legs'', JArr [JObj [(''points'', JArr [])]])]])]"
        "JArr [JObj
        [(''summary'', JObj [(''lengthInMeters'', JNum 12000),
                             (''travelTimeInSeconds'', JNum 900)]),
         (''legs'', JArr [JObj [(''points'', JArr [])]])]]"
        "JObj
        [(''summary'', JObj [(''lengthInMeters'', JNum 12000),
                             (''travelTimeInSeconds'', JNum 900)]),
         (''legs'', JArr [JObj [(''points'', JArr [])]])]"
        "JObj [(''lengthInMeters'', JNum 12000), (''travelTimeInSeconds'', JNum 900)]"
        900 12000
        "JArr [JObj [(''points'', JArr [])]]"
        "JObj [(''points'', JArr [])]"
        "JArr []" 15 "''gasoline''"]
  by simp

text \<open>
  A response object without the key \<^verbatim>\<open>routes\<close> gives the absent result, after one
  reported error.
\<close>

lemma no_routes_key_absent_result:
  "map_of kvs ''routes'' = None \<Longrightarrow>
   get_route_details (Inr (JObj kvs)) v e =
     ([St_error [Lit ''Unable to calculate route. Check your locations!'']],
      Inr (JNull, JNull, JNull, JNull))"
  by (simp add: get_route_details_def)

text \<open>
  Claim C5. A routing response that contains no route should give the absent result
  (four times \<^verbatim>\<open>None\<close>) after a reported error, and never raise. The guard of
  \<^verbatim>\<open>get_route_details\<close> tests only whether the key \<^verbatim>\<open>routes\<close> is there: on the
  response \<^verbatim>\<open>{"routes": []}\<close>, whose list of routes is empty, the guard passes, and
  \<^verbatim>\<open>route_response["routes"][0]\<close> raises \<^verbatim>\<open>IndexError\<close> with nothing reported.
  (\<^verbatim>\<open>geocode_location\<close> tests the truth value of its list and so handles the empty
  one.)
\<close>

theorem empty_routes_list_raises:
  "get_route_details (Inr (JObj [(''routes'', JArr [])])) v e = ([], Inl IndexError)"
  by (simp add: get_route_details_def route_found_def)

text \<open>
  Claim C7. When the geocoding response holds no match (its \<^verbatim>\<open>results\<close> are missing,
  or empty, or false in a condition in any other way), \<^verbatim>\<open>geocode_location\<close> reports
  an error that names the place and returns \<^verbatim>\<open>(None, None)\<close>. When the response has at
  least one result, it returns the latitude and the longitude of the position of the
  first one.
\<close>

theorem geocode_location_result:
  "((\<forall>v. map_of kvs ''results'' = Some v \<longrightarrow> \<not> truthy v) \<longrightarrow>
      geocode_location location (Inr (JObj kvs)) =
        ([St_error [Lit ''Unable to geocode location: '', Val (JStr location)]],
         Inr (JNull, JNull)))
   \<and> (map_of kvs ''results'' = Some (JArr (r # rs)) \<and> getitem r ''position'' = Inr position
        \<and> getitem position ''lat'' = Inr lat \<and> getitem position ''lon'' = Inr lon \<longrightarrow>
      geocode_location location (Inr (JObj kvs)) = ([], Inr (lat, lon)))"
  by (cases "map_of kvs ''results''") (auto simp add: geocode_location_def)

text \<open>
  An empty list of results, a response without the key, and a response with two
  results, of which the first is returned.
\<close>

theorem geocode_location_result_witness:
  "geocode_location ''Atlantis'' (Inr (JObj [(''results'', JArr [])])) =
     ([St_error [Lit ''Unable to geocode location: '', Val (JStr ''Atlantis'')]],
      Inr (JNull, JNull))
   \<and> geocode_location ''Atlantis'' (Inr (JObj [(''summary'', JObj [])])) =
     ([St_error [Lit ''Unable to geocode location: '', Val (JStr ''Atlantis'')]],
      Inr (JNull, JNull))
   \<and> geocode_location ''Paris''
       (Inr (JObj [(''results'', JArr
          [JObj [(''position'', JObj [(''lat'', JNum 48.8566), (''lon'', JNum 2.3522)])],
           JObj [(''position'', JObj [(''lat'', JNum 33.66), (''lon'', JNum (-95.55))])]])]))
     = ([], Inr (JNum 48.8566, JNum 2.3522))"
  using geocode_location_result
      [of "[(''results'', JArr [])]" "''Atlantis''"]
    geocode_location_result
      [of "[(''summary'', JObj [])]" "''Atlantis''"]
    geocode_location_result
      [of "[(''results'', JArr
          [JObj [(''position'', JObj [(''lat'', JNum 48.8566), (''lon'', JNum 2.3522)])],
           JObj [(''position'', JObj [(''lat'', JNum 33.66), (''lon'', JNum (-95.55))])]])]"
          "''Paris''"
          "JObj [(''position'', JObj [(''lat'', JNum 48.8566), (''lon'', JNum 2.3522)])]"
          "[JObj [(''position'', JObj [(''lat'', JNum 33.66), (''lon'', JNum (-95.55))])]]"
          "JObj [(''lat'', JNum 48.8566), (''lon'', JNum 2.3522)]"
          "JNum 48.8566" "JNum 2.3522"]
  by simp

section \<open>Properties of the air-quality client\<close>

text \<open>
  Claim C4, as stated: \<^verbatim>\<open>get_weather_details\<close> returns the same pair on a network
  failure as on an explicit API error or unknown station, in both components. It does
  not: for the city "Paris" the index component is "N/A" both times, but the city-name
  component is "Error fetching data" after a network failure and "City not found"
  after an API error.
\<close>

theorem weather_failure_pairs_differ:
  "snd (get_weather_details ''Paris'' (Inl (RequestException ''connection refused'')))
     = Inr (JStr ''N/A'', JStr ''Error fetching data'')
   \<and> snd (get_weather_details ''Paris''
        (Inr (JObj [(''status'', JStr ''error''), (''data'', JStr ''Unknown station'')])))
     = Inr (JStr ''N/A'', JStr ''City not found'')
   \<and> snd (get_weather_details ''Paris'' (Inl (RequestException ''connection refused'')))
     \<noteq> snd (get_weather_details ''Paris''
        (Inr (JObj [(''status'', JStr ''error''), (''data'', JStr ''Unknown station'')])))"
  by (simp add: get_weather_details_def weather_from_response_def)

text \<open>
  Claim C4, amended. For every non-empty city, \<^verbatim>\<open>get_weather_details\<close> returns the
  index component "N/A" both on a network failure and on an explicit API error or
  unknown station (a response object whose status is "error" or whose data is not an
  object), each after one reported error; the city-name component tells the two apart:
  "Error fetching data" for the network failure, "City not found" for the API error.
\<close>

theorem weather_failure_sentinels:
  assumes "city \<noteq> []"
    and "map_of kvs ''status'' = Some (JStr ''error'')
         \<or> (\<forall>d. map_of kvs ''data'' = Some d \<longrightarrow> \<not> is_dict d)"
  shows "get_weather_details city (Inl (RequestException msg)) =
           ([St_error [Lit ''Error fetching data: '', Exc (RequestException msg)]],
            Inr (JStr ''N/A'', JStr ''Error fetching data''))
       \<and> get_weather_details city (Inr (JObj kvs)) =
           ([St_error [Lit ''Error fetching weather data: '',
                       Val (case map_of kvs ''data'' of
                              None \<Rightarrow> JStr ''Unknown error'' | Some d \<Rightarrow> d)]],
            Inr (JStr ''N/A'', JStr ''City not found''))"
  using assms
  by (cases "map_of kvs ''data''"; cases "map_of kvs ''status''")
     (auto simp add: get_weather_details_def weather_from_response_def)

theorem weather_failure_sentinels_witness:
  "get_weather_details ''Paris'' (Inl (RequestException ''connection refused'')) =
     ([St_error [Lit ''Error fetching data: '', Exc (RequestException ''connection refused'')]],
      Inr (JStr ''N/A'', JStr ''Error fetching data''))
   \<and> get_weather_details ''Paris''
       (Inr (JObj [(''status'', JStr ''error''), (''data'', JStr ''Unknown station'')])) =
     ([St_error [Lit ''Error fetching weather data: '', Val (JStr ''Unknown station'')]],
      Inr (JStr ''N/A'', JStr ''City not found''))"
  using weather_failure_sentinels
    [of "''Paris''" "[(''status'', JStr ''error''), (''data'', JStr ''Unknown station'')]"
        "''connection refused''"]
  by simp

section \<open>Properties of the credential store\<close>

text \<open>
  The digest function and the collation are parameters of the model, so a concrete
  example needs both: the examples below use list reversal as the digest and
  \<^const>\<open>ascii_casefold\<close> as the collation.
\<close>

text \<open>
  Claim C8. \<^verbatim>\<open>hash_password\<close> is deterministic: it depends on the password alone (no
  salt, no state), so two evaluations on a password give the same digest, and equal
  passwords have equal digests.
\<close>

theorem hash_password_deterministic:
  "hash_password sha256_hexdigest p = hash_password sha256_hexdigest p
   \<and> (p1 = p2 \<longrightarrow> hash_password sha256_hexdigest p1 = hash_password sha256_hexdigest p2)"
  by simp

theorem hash_password_deterministic_witness:
  "hash_password rev ''secret'' = hash_password rev ''secret''"
  using hash_password_deterministic [of rev "''secret''" "''secret''" "''secret''"]
  by simp

text \<open>
  Claim C6. A signup whose username is already in the table reports the failure with
  one \<^verbatim>\<open>st.error\<close>, returns \<^verbatim>\<open>False\<close> without raising, and leaves the table as it
  was, whatever the collation of the server is.
\<close>

theorem signup_duplicate_username:
  assumes "u \<in> set (map username tbl)"
  shows "\<exists>e. signup_user weight_string sha256_hexdigest fault tbl f l u p mob vnum vtype =
           ([St_error [Lit ''Signup failed: '', Exc e]], False, tbl)"
  using assms
  by (cases fault) (auto simp add: signup_user_def insert_user_def)

theorem signup_duplicate_username_witness:
  "\<exists>e. signup_user ascii_casefold rev None
     [\<lparr>first_name = ''Ann'', last_name = ''Lee'', username = ''ann'', password = ''terces'',
       mobile_number = ''5550100'', vehicle_number = ''KA01'', vehicle_type = ''BS-6''\<rparr>]
     ''Anna'' ''Ray'' ''ann'' ''other'' ''5550199'' ''KA02'' ''BS-4''
   = ([St_error [Lit ''Signup failed: '', Exc e]], False,
      [\<lparr>first_name = ''Ann'', last_name = ''Lee'', username = ''ann'', password = ''terces'',
        mobile_number = ''5550100'', vehicle_number = ''KA01'', vehicle_type = ''BS-6''\<rparr>])"
  using signup_duplicate_username
    [where u = "''ann''"
       and tbl = "[\<lparr>first_name = ''Ann'', last_name = ''Lee'', username = ''ann'',
             password = ''terces'', mobile_number = ''5550100'', vehicle_number = ''KA01'',
             vehicle_type = ''BS-6''\<rparr>]"
       and weight_string = ascii_casefold and sha256_hexdigest = rev and fault = None
       and f = "''Anna''" and l = "''Ray''" and p = "''other''" and mob = "''5550199''"
       and vnum = "''KA02''" and vtype = "''BS-4''"]
  by simp

lemma fetchone_None [simp]: "(fetchone rows = None) = (rows = [])"
  by (simp add: fetchone_def split: list.splits)

lemma login_user_no_fault:
  "snd (login_user W H None tbl u p) =
     (\<exists>r \<in> set tbl. W (username r) = W u \<and> W (password r) = W (hash_password H p))"
  by (auto simp add: login_user_def select_user_def filter_empty_conv)

lemma ascii_casefold_ANN: "ascii_casefold ''ANN'' = ''ann''"
  by (simp add: ascii_casefold_def fold_letter_def)

lemma ascii_casefold_lower:
  "ascii_casefold ''ann'' = ''ann''" "ascii_casefold ''terces'' = ''terces''"
  "ascii_casefold ''sseug'' = ''sseug''"
  by (simp_all add: ascii_casefold_def fold_letter_def)

text \<open>
  Claim C3, as stated: \<^verbatim>\<open>login_user(u, p)\<close> returns true if and only if the table has
  a row whose username equals \<open>u\<close> and whose digest equals the hash of \<open>p\<close>. It fails
  in both directions. When the database call raises, \<^verbatim>\<open>except Exception\<close> makes the
  function return \<^verbatim>\<open>False\<close> although the table has the row: the table holds the row
  of "ann" with the digest of "secret", and the login of "ann" with "secret" fails. And
  when the server compares text without regard to case, the login of "ANN" with
  "secret" succeeds on that table, which has no row whose username equals "ANN".
\<close>

theorem login_unreachable_database_counterexample:
  "\<not> snd (login_user ascii_casefold rev (Some ''server has gone away'')
        [\<lparr>first_name = ''Ann'', last_name = ''Lee'', username = ''ann'', password = ''terces'',
          mobile_number = ''5550100'', vehicle_number = ''KA01'', vehicle_type = ''BS-6''\<rparr>]
        ''ann'' ''secret'')
   \<and> username \<lparr>first_name = ''Ann'', last_name = ''Lee'', username = ''ann'',
        password = ''terces'', mobile_number = ''5550100'', vehicle_number = ''KA01'',
        vehicle_type = ''BS-6''\<rparr> = ''ann''
   \<and> password \<lparr>first_name = ''Ann'', last_name = ''Lee'', username = ''ann'',
        password = ''terces'', mobile_number = ''5550100'', vehicle_number = ''KA01'',
        vehicle_type = ''BS-6''\<rparr> = hash_password rev ''secret''
   \<and> snd (login_user ascii_casefold rev None
        [\<lparr>first_name = ''Ann'', last_name = ''Lee'', username = ''ann'', password = ''terces'',
          mobile_number = ''5550100'', vehicle_number = ''KA01'', vehicle_type = ''BS-6''\<rparr>]
        ''ANN'' ''secret'')
   \<and> username \<lparr>first_name = ''Ann'', last_name = ''Lee'', username = ''ann'',
        password = ''terces'', mobile_number = ''5550100'', vehicle_number = ''KA01'',
        vehicle_type = ''BS-6''\<rparr> \<noteq> ''ANN''"
  by (simp add: login_user_def select_user_def hash_password_def
        ascii_casefold_ANN ascii_casefold_lower)

text \<open>
  Claim C3, amended. When the database call completes, \<^verbatim>\<open>login_user(u, p)\<close> returns
  true if and only if the table has a row whose username and stored digest compare
  equal, under the collation of the server, to \<open>u\<close> and to the hash of \<open>p\<close>; under a
  binary collation that is a row whose username is \<open>u\<close> and whose digest is the hash
  of \<open>p\<close>, and under the server's default collation the case of letters is ignored.
  When the database call raises, it reports the error and returns false. Consequently,
  after a successful signup with \<open>(u, p)\<close>, a login with \<open>(u, p)\<close> whose database call
  completes succeeds, and one with \<open>(u, p')\<close> fails for every \<open>p'\<close> whose digest the
  collation tells apart from that of \<open>p\<close>.
\<close>

theorem login_user_checks_table:
  "snd (login_user W H None tbl u p) =
     (\<exists>r \<in> set tbl. W (username r) = W u \<and> W (password r) = W (hash_password H p))
   \<and> (inj W \<longrightarrow>
        snd (login_user W H None tbl u p) =
          (\<exists>r \<in> set tbl. username r = u \<and> password r = hash_password H p))
   \<and> login_user W H (Some msg) tbl u p =
       ([St_error [Lit ''Login failed: '', Exc (OperationalError msg)]], False)
   \<and> (signup_user W H fault tbl f l u p mob vnum vtype = ([], True, tbl') \<longrightarrow>
        snd (login_user W H None tbl' u p)
        \<and> (\<forall>p'. W (hash_password H p') \<noteq> W (hash_password H p) \<longrightarrow>
              \<not> snd (login_user W H None tbl' u p')))"
proof (intro conjI impI)
  show "snd (login_user W H None tbl u p) =
     (\<exists>r \<in> set tbl. W (username r) = W u \<and> W (password r) = W (hash_password H p))"
    by (rule login_user_no_fault)
  show "login_user W H (Some msg) tbl u p =
       ([St_error [Lit ''Login failed: '', Exc (OperationalError msg)]], False)"
    by (simp add: login_user_def)
next
  assume "inj W"
  then have "W a = W b \<longleftrightarrow> a = b" for a b
    by (auto dest: injD)
  then show "snd (login_user W H None tbl u p) =
          (\<exists>r \<in> set tbl. username r = u \<and> password r = hash_password H p)"
    by (simp add: login_user_no_fault)
next
  assume ok: "signup_user W H fault tbl f l u p mob vnum vtype = ([], True, tbl')"
  let ?row = "\<lparr>first_name = f, last_name = l, username = u,
                password = hash_password H p, mobile_number = mob,
                vehicle_number = vnum, vehicle_type = vtype\<rparr>"
  from ok have ins: "insert_user W tbl ?row = Inr tbl'"
    by (auto simp add: signup_user_def split: option.splits sum.splits)
  then have tbl': "tbl' = tbl @ [?row]"
    and fresh: "W u \<notin> set (map (\<lambda>old. W (username old)) tbl)"
    by (auto simp add: insert_user_def split: if_splits)
  show "snd (login_user W H None tbl' u p)"
    by (simp add: login_user_no_fault tbl')
  show "\<forall>p'. W (hash_password H p') \<noteq> W (hash_password H p) \<longrightarrow>
          \<not> snd (login_user W H None tbl' u p')"
  proof (intro allI impI)
    fix p'
    assume other: "W (hash_password H p') \<noteq> W (hash_password H p)"
    have "\<not> (\<exists>r \<in> set tbl. W (username r) = W u)"
      using fresh by (auto simp add: image_iff)
    with other show "\<not> snd (login_user W H None tbl' u p')"
      by (auto simp add: login_user_no_fault tbl')
  qed
qed

text \<open>
  "ann" signs up with "secret" into an empty table; the login with "secret" then
  succeeds and the login with "guess" fails. With the identity as weight string (a
  binary collation) the login of "ANN" finds no row.
\<close>

theorem login_user_checks_table_witness:
  "signup_user ascii_casefold rev None []
       ''Ann'' ''Lee'' ''ann'' ''secret'' ''5550100'' ''KA01'' ''BS-6'' =
     ([], True,
      [\<lparr>first_name = ''Ann'', last_name = ''Lee'', username = ''ann'', password = ''terces'',
        mobile_number = ''5550100'', vehicle_number = ''KA01'', vehicle_type = ''BS-6''\<rparr>])
   \<and> snd (login_user ascii_casefold rev None
      [\<lparr>first_name = ''Ann'', last_name = ''Lee'', username = ''ann'', password = ''terces'',
        mobile_number = ''5550100'', vehicle_number = ''KA01'', vehicle_type = ''BS-6''\<rparr>]
      ''ann'' ''secret'')
   \<and> \<not> snd (login_user ascii_casefold rev None
      [\<lparr>first_name = ''Ann'', last_name = ''Lee'', username = ''ann'', password = ''terces'',
        mobile_number = ''5550100'', vehicle_number = ''KA01'', vehicle_type = ''BS-6''\<rparr>]
      ''ann'' ''guess'')
   \<and> \<not> snd (login_user id rev None
      [\<lparr>first_name = ''Ann'', last_name = ''Lee'', username = ''ann'', password = ''terces'',
        mobile_number = ''5550100'', vehicle_number = ''KA01'', vehicle_type = ''BS-6''\<rparr>]
      ''ANN'' ''secret'')"
proof -
  let ?tbl = "[\<lparr>first_name = ''Ann'', last_name = ''Lee'', username = ''ann'',
      password = ''terces'', mobile_number = ''5550100'', vehicle_number = ''KA01'',
      vehicle_type = ''BS-6''\<rparr>]"
  have signed_up: "signup_user ascii_casefold rev None [] ''Ann'' ''Lee'' ''ann'' ''secret''
      ''5550100'' ''KA01'' ''BS-6'' = ([], True, ?tbl)"
    by (simp add: signup_user_def insert_user_def fits_columns_def hash_password_def)
  have differs: "ascii_casefold (hash_password rev ''guess'')
      \<noteq> ascii_casefold (hash_password rev ''secret'')"
    by (simp add: hash_password_def ascii_casefold_lower)
  from login_user_checks_table
    [where W = ascii_casefold and H = rev and fault = None and tbl = "[]"
       and f = "''Ann''" and l = "''Lee''"
       and u = "''ann''" and p = "''secret''" and mob = "''5550100''" and vnum = "''KA01''"
       and vtype = "''BS-6''" and tbl' = ?tbl]
    signed_up differs
  have folded: "snd (login_user ascii_casefold rev None ?tbl ''ann'' ''secret'')
      \<and> \<not> snd (login_user ascii_casefold rev None ?tbl ''ann'' ''guess'')"
    by blast
  have "inj (id :: string \<Rightarrow> string)"
    by simp
  with login_user_checks_table
    [where W = id and H = rev and tbl = ?tbl and u = "''ANN''" and p = "''secret''"]
  have "snd (login_user id rev None ?tbl ''ANN'' ''secret'') =
      (\<exists>r \<in> set ?tbl. username r = ''ANN'' \<and> password r = hash_password rev ''secret'')"
    by blast
  then have binary: "\<not> snd (login_user id rev None ?tbl ''ANN'' ''secret'')"
    by simp
  from signed_up folded binary show ?thesis
    by blast
qed

section \<open>Properties of the route journal\<close>

lemma run_writes_saved_data:
  "run_writes (route_writes idx (saved_data s)) = (shown_summary idx s, Inr ())"
  by (simp add: route_writes_def saved_data_def shown_summary_def)

lemma show_routes_saved_data:
  "show_routes idx (map saved_data ss) =
     (concat (map (\<lambda>(i, s). shown_summary i s) (enumerate idx ss)), Inr ())"
  by (induction ss arbitrary: idx) (simp_all add: run_writes_saved_data)

lemma save_route_Absent:
  "save_route Absent s =
     (Decodes (JArr [saved_data s]),
      [St_success [Lit ''Route details saved successfully!'']], Inr ())"
  by (simp add: save_route_def)

lemma save_route_list:
  "save_route (Decodes (JArr xs)) s =
     (Decodes (JArr (xs @ [saved_data s])),
      [St_success [Lit ''Route details saved successfully!'']], Inr ())"
  by (simp add: save_route_def)

lemma save_all_list:
  "save_all (Decodes (JArr xs)) ss = Inr (Decodes (JArr (xs @ map saved_data ss)))"
  by (induction ss arbitrary: xs) (simp_all add: save_route_list)

lemma save_all_Absent:
  "save_all Absent ss = Inr (if ss = [] then Absent else Decodes (JArr (map saved_data ss)))"
  by (cases ss) (simp_all add: save_route_Absent save_all_list)

text \<open>A saved entry determines the summary it was made from.\<close>

lemma saved_data_inj: "saved_data s = saved_data s' \<Longrightarrow> s = s'"
  by (cases s; cases s') (simp add: saved_data_def)

text \<open>
  Claim C2. Starting from an absent journal file, saving the summaries \<open>ss\<close> one at a
  time never raises. With no summary the file is still absent; otherwise the file
  decodes to exactly the entries of \<open>ss\<close>, in the order they were saved, and the listing
  shows one block for each of them in that order. The listing of an absent file shows
  no route at all, only the note that none was found.
\<close>

theorem journal_append_then_list:
  "\<exists>file. save_all Absent ss = Inr file
     \<and> (ss = [] \<longrightarrow> file = Absent)
     \<and> (ss \<noteq> [] \<longrightarrow> open_and_load file = Inr (JArr (map saved_data ss)))
     \<and> (ss \<noteq> [] \<longrightarrow> saved_routes_page file =
          (St_write [Lit ''Saved Routes:'']
             # concat (map (\<lambda>(idx, s). shown_summary idx s) (enumerate 0 ss)), Inr ()))
     \<and> saved_routes_page Absent =
          ([St_write [Lit ''Saved Routes:''], St_write [Lit ''No saved routes found.'']],
           Inr ())"
  by (simp add: save_all_Absent saved_routes_page_def show_routes_saved_data)

text \<open>Two summaries saved in a row, then listed.\<close>

theorem journal_append_then_list_witness:
  "\<exists>file. save_all Absent
      [\<lparr>weather_city = ''Pune'', start_location = ''Pune'', end_location = ''Mumbai'',
        travel_time = 180, route_distance = 150, emissions = 23.1, route_map = ''<div/>''\<rparr>,
       \<lparr>weather_city = [], start_location = ''Mumbai'', end_location = ''Nashik'',
        travel_time = 200, route_distance = 167, emissions = 0, route_map = ''<p/>''\<rparr>]
      = Inr file
    \<and> saved_routes_page file =
       ([St_write [Lit ''Saved Routes:''],
         St_write [Lit ''Route '', Val (JNum 1), Lit '':''],
         St_write [Lit ''Weather City: '', Val (JStr ''Pune'')],
         St_write [Lit ''Start Location: '', Val (JStr ''Pune'')],
         St_write [Lit ''End Location: '', Val (JStr ''Mumbai'')],
         St_write [Lit ''Travel Time: '', Fix2 180, Lit '' minutes''],
         St_write [Lit ''Route Distance: '', Fix2 150, Lit '' km''],
         St_write [Lit ''Emissions: '', Fix2 23.1, Lit '' kg CO2''],
         St_write [Lit ''---''],
         St_write [Lit ''Route '', Val (JNum 2), Lit '':''],
         St_write [Lit ''Weather City: '', Val (JStr [])],
         St_write [Lit ''Start Location: '', Val (JStr ''Mumbai'')],
         St_write [Lit ''End Location: '', Val (JStr ''Nashik'')],
         St_write [Lit ''Travel Time: '', Fix2 200, Lit '' minutes''],
         St_write [Lit ''Route Distance: '', Fix2 167, Lit '' km''],
         St_write [Lit ''Emissions: '', Fix2 0, Lit '' kg CO2''],
         St_write [Lit ''---'']], Inr ())"
proof -
  let ?ss = "[\<lparr>weather_city = ''Pune'', start_location = ''Pune'', end_location = ''Mumbai'',
        travel_time = 180, route_distance = 150, emissions = 23.1, route_map = ''<div/>''\<rparr>,
       \<lparr>weather_city = [], start_location = ''Mumbai'', end_location = ''Nashik'',
        travel_time = 200, route_distance = 167, emissions = 0, route_map = ''<p/>''\<rparr>]"
  from journal_append_then_list [of ?ss] obtain jf where
    saved: "save_all Absent ?ss = Inr jf" and
    listed: "?ss \<noteq> [] \<longrightarrow> saved_routes_page jf =
          (St_write [Lit ''Saved Routes:'']
             # concat (map (\<lambda>(idx, s). shown_summary idx s) (enumerate 0 ?ss)), Inr ())"
    by (elim exE conjE)
  from listed have "saved_routes_page jf =
          (St_write [Lit ''Saved Routes:'']
             # concat (map (\<lambda>(idx, s). shown_summary idx s) (enumerate 0 ?ss)), Inr ())"
    by simp
  then have "saved_routes_page jf =
       ([St_write [Lit ''Saved Routes:''],
         St_write [Lit ''Route '', Val (JNum 1), Lit '':''],
         St_write [Lit ''Weather City: '', Val (JStr ''Pune'')],
         St_write [Lit ''Start Location: '', Val (JStr ''Pune'')],
         St_write [Lit ''End Location: '', Val (JStr ''Mumbai'')],
         St_write [Lit ''Travel Time: '', Fix2 180, Lit '' minutes''],
         St_write [Lit ''Route Distance: '', Fix2 150, Lit '' km''],
         St_write [Lit ''Emissions: '', Fix2 23.1, Lit '' kg CO2''],
         St_write [Lit ''---''],
         St_write [Lit ''Route '', Val (JNum 2), Lit '':''],
         St_write [Lit ''Weather City: '', Val (JStr [])],
         St_write [Lit ''Start Location: '', Val (JStr ''Mumbai'')],
         St_write [Lit ''End Location: '', Val (JStr ''Nashik'')],
         St_write [Lit ''Travel Time: '', Fix2 200, Lit '' minutes''],
         St_write [Lit ''Route Distance: '', Fix2 167, Lit '' km''],
         St_write [Lit ''Emissions: '', Fix2 0, Lit '' kg CO2''],
         St_write [Lit ''---'']], Inr ())"
    by (simp add: shown_summary_def)
  with saved show ?thesis by (intro exI conjI)
qed

text \<open>
  Claim C10. When the journal file exists but does not hold valid JSON, the save
  path and the listing path both raise the decoding error, which nothing catches: the
  save writes nothing and reports nothing, the listing stops after its heading. Only
  the absent file is handled: there the save starts a new journal and the listing
  notes that no route was found.
\<close>

theorem invalid_journal_raises:
  "save_route Undecodable s = (Undecodable, [], Inl JSONDecodeError)
   \<and> saved_routes_page Undecodable = ([St_write [Lit ''Saved Routes:'']], Inl JSONDecodeError)
   \<and> save_route Absent s =
       (Decodes (JArr [saved_data s]),
        [St_success [Lit ''Route details saved successfully!'']], Inr ())
   \<and> saved_routes_page Absent =
       ([St_write [Lit ''Saved Routes:''], St_write [Lit ''No saved routes found.'']], Inr ())"
  by (simp add: save_route_def saved_routes_page_def)

theorem invalid_journal_raises_witness:
  "save_route Undecodable
     \<lparr>weather_city = ''Pune'', start_location = ''Pune'', end_location = ''Mumbai'',
      travel_time = 180, route_distance = 150, emissions = 23.1, route_map = ''<div/>''\<rparr>
   = (Undecodable, [], Inl JSONDecodeError)
   \<and> saved_routes_page Undecodable = ([St_write [Lit ''Saved Routes:'']], Inl JSONDecodeError)"
  using invalid_journal_raises
    [of "\<lparr>weather_city = ''Pune'', start_location = ''Pune'', end_location = ''Mumbai'',
      travel_time = 180, route_distance = 150, emissions = 23.1, route_map = ''<div/>''\<rparr>"]
  by simp

end
